theory Spec2Isabelle
  imports Complex_Main
begin

section \<open>Belief store: Beta-Bernoulli beliefs per intervention\<close>

text \<open>
  Model of \<^verbatim>\<open>app/services/ml_training.py\<close>, class \<^verbatim>\<open>MLTrainingService\<close>.
  Python floats are read as real numbers; every constant the code adds to a belief
  (1.0, 0.5, 0.0) is exactly representable. The JSON dictionaries are maps, and the table
  of per-user models is a map from the user id to the stored model row. Every call runs in
  a session of its own: it reads the stored row and commits.
\<close>

datatype error = ValidationError | ZeroDivisionError

text \<open>The dictionary \<^verbatim>\<open>{"alpha": .., "beta": .., "count": ..}\<close> of a context, and the
  belief of an intervention, which has the same three keys and \<^verbatim>\<open>"contexts"\<close>.\<close>

record ctx_belief =
  alpha :: real
  beta :: real
  count :: int

record belief = ctx_belief +
  contexts :: "string \<rightharpoonup> ctx_belief"

record user_ml_model =
  intervention_prior_beliefs :: "string \<rightharpoonup> belief"
  total_interactions :: int
  model_version :: int
  last_model_update :: "nat option"

type_synonym user_id = nat
type_synonym database = "user_id \<rightharpoonup> user_ml_model"

text \<open>The context dictionary with its keys \<^verbatim>\<open>"emotion"\<close>, \<^verbatim>\<open>"energy_level"\<close> and
  \<^verbatim>\<open>"time_of_day"\<close>; a key that is absent is \<open>None\<close>.\<close>

record ml_context =
  ctx_emotion :: "string option"
  ctx_energy_level :: "int option"
  ctx_time_of_day :: "string option"

definition new_user_model :: user_ml_model where
  "new_user_model =
     \<lparr>intervention_prior_beliefs = Map.empty, total_interactions = 0,
      model_version = 1, last_model_update = None\<rparr>"

definition get_or_create_user_model :: "database \<Rightarrow> user_id \<Rightarrow> user_ml_model \<times> database" where
  "get_or_create_user_model db uid =
     (case db uid of
        Some model \<Rightarrow> (model, db)
      | None \<Rightarrow> (new_user_model, db(uid \<mapsto> new_user_model)))"

definition get_context_key :: "ml_context \<Rightarrow> string" where
  "get_context_key c =
     (let emotion = (case ctx_emotion c of Some e \<Rightarrow> e | None \<Rightarrow> ''unknown'');
          energy = (case ctx_energy_level c of Some e \<Rightarrow> e | None \<Rightarrow> 5);
          time_of_day = (case ctx_time_of_day c of Some t \<Rightarrow> t | None \<Rightarrow> ''unknown'');
          energy_bucket = (if energy \<le> 3 then ''low''
                           else if energy \<le> 7 then ''medium'' else ''high'')
      in emotion @ ''_'' @ energy_bucket @ ''_'' @ time_of_day)"

definition rating_success :: "int \<Rightarrow> real" where
  "rating_success effectiveness_rating =
     (if effectiveness_rating \<ge> 4 then 1
      else if effectiveness_rating \<le> 2 then 0
      else 1 / 2)"

definition prior_belief :: belief where
  "prior_belief = \<lparr>alpha = 1, beta = 1, count = 0, contexts = Map.empty\<rparr>"

definition prior_ctx_belief :: ctx_belief where
  "prior_ctx_belief = \<lparr>alpha = 1, beta = 1, count = 0\<rparr>"

text \<open>
  What a commit writes. \<^verbatim>\<open>intervention_prior_beliefs\<close> is a plain \<^verbatim>\<open>Column(JSONB, default={})\<close>
  (\<^verbatim>\<open>app/models/ml_model.py\<close>), with no mutation tracking, and nothing in the repository
  flags it as modified. At a commit the ORM writes such a column only when the value
  assigned to the attribute differs from the value it loaded; a dictionary that was
  loaded, changed in place and assigned back is the same object on both sides, so its
  column is left out of the UPDATE. \<^verbatim>\<open>model.intervention_prior_beliefs or {}\<close> is a new
  dictionary exactly when the loaded one is empty; only then does the assignment at the
  end of \<^verbatim>\<open>update_intervention_belief\<close> store the changed beliefs. The integer and
  timestamp columns are written whenever they are assigned. A commit updates the row of a
  loaded model; it does not insert one (\<^verbatim>\<open>get_or_create_user_model\<close> does that).
\<close>

definition commit_row :: "database \<Rightarrow> user_id \<Rightarrow> user_ml_model \<Rightarrow> database" where
  "commit_row db uid model = (case db uid of None \<Rightarrow> db | Some stored \<Rightarrow> db(uid \<mapsto> model))"

text \<open>\<^verbatim>\<open>update_intervention_belief(db, user_id, intervention_id, effectiveness_rating, context)\<close>;
  \<open>now\<close> is the clock reading stored in \<^verbatim>\<open>last_model_update\<close>, and the intervention is given
  by its key \<^verbatim>\<open>str(intervention_id)\<close>. \<open>loaded\<close> is the dictionary as read from the row,
  \<open>beliefs\<close> the dictionary after the changes in place, and \<open>written\<close> what the row holds
  after the commit.\<close>

definition update_intervention_belief ::
  "nat \<Rightarrow> database \<Rightarrow> user_id \<Rightarrow> string \<Rightarrow> int \<Rightarrow> ml_context \<Rightarrow> database" where
  "update_intervention_belief now db uid intervention_key effectiveness_rating ctx =
     (let (model, db1) = get_or_create_user_model db uid;
          loaded = intervention_prior_beliefs model;
          b0 = (case loaded intervention_key of Some b \<Rightarrow> b | None \<Rightarrow> prior_belief);
          success = rating_success effectiveness_rating;
          b1 = b0\<lparr>alpha := alpha b0 + success,
                  beta := beta b0 + (1 - success),
                  count := count b0 + 1\<rparr>;
          context_key = get_context_key ctx;
          c0 = (case contexts b1 context_key of Some c \<Rightarrow> c | None \<Rightarrow> prior_ctx_belief);
          c1 = c0\<lparr>alpha := alpha c0 + success,
                  beta := beta c0 + (1 - success),
                  count := count c0 + 1\<rparr>;
          b2 = b1\<lparr>contexts := (contexts b1)(context_key \<mapsto> c1)\<rparr>;
          beliefs = loaded(intervention_key \<mapsto> b2);
          written = (if loaded = Map.empty then beliefs else loaded);
          model' = model\<lparr>intervention_prior_beliefs := written,
                         total_interactions := total_interactions model + 1,
                         last_model_update := Some now\<rparr>
      in commit_row db1 uid model')"

subsection \<open>The request schema and the endpoint\<close>

text \<open>\<^verbatim>\<open>UpdateBeliefRequest\<close> of \<^verbatim>\<open>app/schemas/ml.py\<close>: the rating is declared
  \<^verbatim>\<open>Field(..., ge=1, le=5)\<close> and the optional energy level \<^verbatim>\<open>Field(None, ge=1, le=10)\<close>.
  A request that breaks a declared bound is rejected with a validation error before the
  endpoint body runs.\<close>

record update_belief_request =
  intervention_id :: string
  effectiveness_rating :: int
  context_emotion :: "string option"
  context_energy_level :: "int option"
  context_time_of_day :: "string option"

definition validate_update_belief_request :: "update_belief_request \<Rightarrow> error + update_belief_request" where
  "validate_update_belief_request r =
     (if effectiveness_rating r < 1 \<or> 5 < effectiveness_rating r then Inl ValidationError
      else (case context_energy_level r of
              None \<Rightarrow> Inr r
            | Some e \<Rightarrow> (if e < 1 \<or> 10 < e then Inl ValidationError else Inr r)))"

text \<open>Python's \<^verbatim>\<open>x or d\<close> on an optional string and on an optional integer.\<close>

definition str_or :: "string option \<Rightarrow> string \<Rightarrow> string" where
  "str_or x d = (case x of None \<Rightarrow> d | Some s \<Rightarrow> if s = [] then d else s)"

definition int_or :: "int option \<Rightarrow> int \<Rightarrow> int" where
  "int_or x d = (case x of None \<Rightarrow> d | Some i \<Rightarrow> if i = 0 then d else i)"

text \<open>The endpoint \<^verbatim>\<open>POST /ml/model/update-belief\<close> of \<^verbatim>\<open>app/api/ml.py\<close>.\<close>

definition update_belief_endpoint ::
  "nat \<Rightarrow> database \<Rightarrow> user_id \<Rightarrow> update_belief_request \<Rightarrow> error + database" where
  "update_belief_endpoint now db uid raw =
     (case validate_update_belief_request raw of
        Inl e \<Rightarrow> Inl e
      | Inr request \<Rightarrow>
          (let ctx = \<lparr>ctx_emotion = Some (str_or (context_emotion request) ''unknown''),
                      ctx_energy_level = Some (int_or (context_energy_level request) 5),
                      ctx_time_of_day = Some (str_or (context_time_of_day request) ''unknown'')\<rparr>
           in Inr (update_intervention_belief now db uid (intervention_id request)
                     (effectiveness_rating request) ctx)))"

text \<open>A sequence of feedback events (intervention key, rating, context), recorded one
  after the other.\<close>

fun record_feedbacks ::
  "nat \<Rightarrow> database \<Rightarrow> user_id \<Rightarrow> (string \<times> int \<times> ml_context) list \<Rightarrow> database" where
  "record_feedbacks now db uid [] = db"
| "record_feedbacks now db uid ((k, rating, ctx) # events) =
     record_feedbacks now (update_intervention_belief now db uid k rating ctx) uid events"

definition belief_of :: "database \<Rightarrow> user_id \<Rightarrow> string \<Rightarrow> belief option" where
  "belief_of db uid k =
     (case db uid of None \<Rightarrow> None | Some model \<Rightarrow> intervention_prior_beliefs model k)"

definition posterior_mean :: "belief \<Rightarrow> real" where
  "posterior_mean b = alpha b / (alpha b + beta b)"

subsection \<open>Thompson sampling\<close>

text \<open>\<^verbatim>\<open>random.gammavariate\<close> belongs to the standard library: it is a parameter \<open>gammavariate\<close>
  that takes the shape, the scale and the state of the generator and returns the variate
  and the next state. \<^verbatim>\<open>_sample_beta\<close> divides, so a zero denominator is the error value.\<close>

definition sample_beta ::
  "(real \<Rightarrow> real \<Rightarrow> 'r \<Rightarrow> real \<times> 'r) \<Rightarrow> real \<Rightarrow> real \<Rightarrow> 'r \<Rightarrow> (error + real) \<times> 'r" where
  "sample_beta gammavariate a b rs =
     (let (x, rs1) = gammavariate a 1 rs;
          (y, rs2) = gammavariate b 1 rs1
      in (if x + y = 0 then Inl ZeroDivisionError else Inr (x / (x + y)), rs2))"

definition sample_intervention_effectiveness ::
  "(real \<Rightarrow> real \<Rightarrow> 'r \<Rightarrow> real \<times> 'r) \<Rightarrow> database \<Rightarrow> user_id \<Rightarrow> string \<Rightarrow> ml_context \<Rightarrow> 'r
     \<Rightarrow> ((error + real) \<times> 'r) \<times> database" where
  "sample_intervention_effectiveness gammavariate db uid intervention_key ctx rs =
     (let (model, db1) = get_or_create_user_model db uid;
          beliefs = intervention_prior_beliefs model
      in (case beliefs intervention_key of
            None \<Rightarrow> (sample_beta gammavariate 1 1 rs, db1)
          | Some b \<Rightarrow>
              (case contexts b (get_context_key ctx) of
                 None \<Rightarrow> (sample_beta gammavariate (alpha b) (beta b) rs, db1)
               | Some ctx_b \<Rightarrow>
                   (if count ctx_b \<ge> 3
                    then (sample_beta gammavariate (alpha ctx_b) (beta ctx_b) rs, db1)
                    else (sample_beta gammavariate (alpha b) (beta b) rs, db1)))))"

section \<open>Pattern miner\<close>

text \<open>
  A check-in row as the miners and the forecaster read it: the hour and the weekday name
  of \<^verbatim>\<open>created_at\<close>, the integer scores, and the optional context columns.
\<close>

record mood_checkin =
  created_hour :: nat
  created_weekday :: string
  mood_score :: int
  energy_level :: int
  anxiety_level :: "int option"
  context_location :: "string option"
  context_activity :: "string option"
  context_social :: "string option"

text \<open>A \<^verbatim>\<open>defaultdict\<close> keeps its keys in insertion order: it is an association list, and
  \<open>dict_update k d f\<close> is \<^verbatim>\<open>m[k] = f(m[k])\<close> with the default \<open>d\<close> for a key seen first.\<close>

fun dict_update :: "'k \<Rightarrow> 'v \<Rightarrow> ('v \<Rightarrow> 'v) \<Rightarrow> ('k \<times> 'v) list \<Rightarrow> ('k \<times> 'v) list" where
  "dict_update k d f [] = [(k, f d)]"
| "dict_update k d f ((k', v) # kvs) =
     (if k' = k then (k', f v) # kvs else (k', v) # dict_update k d f kvs)"

text \<open>Python's \<^verbatim>\<open>round(x, n)\<close> read on the real value: the nearest multiple of
  \<open>10\<^sup>-\<^sup>n\<close>, a tie to the even one. Python rounds the binary float, so at a decimal tie
  that has no exact float (6.35 is stored slightly below) its result can be the other
  neighbour. The properties below do not rest on the digit chosen at a tie: they bound
  the rounded value, or use it where the value is no tie.\<close>

definition round_half_even :: "real \<Rightarrow> int" where
  "round_half_even x =
     (let f = \<lfloor>x\<rfloor>; d = x - of_int f
      in if d < 1 / 2 then f else if 1 / 2 < d then f + 1 else if even f then f else f + 1)"

definition py_round :: "real \<Rightarrow> nat \<Rightarrow> real" where
  "py_round x n = of_int (round_half_even (x * 10 ^ n)) / 10 ^ n"

subsection \<open>Circadian patterns\<close>

text \<open>The accumulator \<^verbatim>\<open>{"mood_sum": 0, "energy_sum": 0, "count": 0}\<close> (its count is
  \<open>sum_count\<close> here) and the bucket \<^verbatim>\<open>{"avg_mood", "avg_energy", "sample_count"}\<close>.\<close>

record pattern_sums =
  mood_sum :: int
  energy_sum :: int
  sum_count :: int

record time_bucket =
  avg_mood :: real
  avg_energy :: real
  sample_count :: int

text \<open>The pattern dictionary; a key that the dictionary does not have is \<open>None\<close>, so the
  empty dictionary is \<open>no_patterns\<close>. Hours are the keys of \<^verbatim>\<open>"hourly"\<close>.\<close>

record circadian =
  hourly :: "(nat \<times> time_bucket) list option"
  daily :: "(string \<times> time_bucket) list option"
  best_hours :: "nat list option"
  worst_hours :: "nat list option"
  best_days :: "string list option"

definition no_patterns :: circadian where
  "no_patterns = \<lparr>hourly = None, daily = None, best_hours = None, worst_hours = None,
                   best_days = None\<rparr>"

definition zero_sums :: pattern_sums where
  "zero_sums = \<lparr>mood_sum = 0, energy_sum = 0, sum_count = 0\<rparr>"

definition add_checkin :: "mood_checkin \<Rightarrow> pattern_sums \<Rightarrow> pattern_sums" where
  "add_checkin c s =
     s\<lparr>mood_sum := mood_sum s + mood_score c,
       energy_sum := energy_sum s + energy_level c,
       sum_count := sum_count s + 1\<rparr>"

definition hourly_patterns :: "mood_checkin list \<Rightarrow> (nat \<times> pattern_sums) list" where
  "hourly_patterns checkins =
     foldl (\<lambda>acc c. dict_update (created_hour c) zero_sums (add_checkin c) acc) [] checkins"

definition daily_patterns :: "mood_checkin list \<Rightarrow> (string \<times> pattern_sums) list" where
  "daily_patterns checkins =
     foldl (\<lambda>acc c. dict_update (created_weekday c) zero_sums (add_checkin c) acc) [] checkins"

definition to_bucket :: "pattern_sums \<Rightarrow> time_bucket" where
  "to_bucket s =
     \<lparr>avg_mood = py_round (of_int (mood_sum s) / of_int (sum_count s)) 2,
      avg_energy = py_round (of_int (energy_sum s) / of_int (sum_count s)) 2,
      sample_count = sum_count s\<rparr>"

definition averages :: "('k \<times> pattern_sums) list \<Rightarrow> ('k \<times> time_bucket) list" where
  "averages patterns =
     map (\<lambda>(k, s). (k, to_bucket s)) (filter (\<lambda>(k, s). sum_count s \<ge> 3) patterns)"

text \<open>\<^verbatim>\<open>sorted(items, key=avg_mood, reverse=True)\<close>: a stable sort, descending.\<close>

definition sorted_by_mood :: "('k \<times> time_bucket) list \<Rightarrow> ('k \<times> time_bucket) list" where
  "sorted_by_mood items = sort_key (\<lambda>(k, b). - avg_mood b) items"

definition last_n :: "nat \<Rightarrow> 'a list \<Rightarrow> 'a list" where
  "last_n n xs = drop (length xs - n) xs"

definition learn_circadian_patterns :: "mood_checkin list \<Rightarrow> circadian" where
  "learn_circadian_patterns checkins =
     (if length checkins < 10 then no_patterns
      else
        (let hourly = averages (hourly_patterns checkins);
             daily = averages (daily_patterns checkins);
             sorted_hours = sorted_by_mood hourly;
             sorted_days = sorted_by_mood daily
         in \<lparr>hourly = Some hourly,
             daily = Some daily,
             best_hours = Some (if hourly \<noteq> [] then map fst (take 3 sorted_hours) else []),
             worst_hours = Some (if hourly \<noteq> [] then map fst (last_n 3 sorted_hours) else []),
             best_days = Some (if daily \<noteq> [] then map fst (take 2 sorted_days) else [])\<rparr>))"

subsection \<open>Trigger patterns\<close>

text \<open>The accumulator \<^verbatim>\<open>{"positive": 0, "negative": 0, "count": 0}\<close> of one context value
  (its count is \<open>impact_count\<close> here).\<close>

record impact =
  positive :: int
  negative :: int
  impact_count :: int

text \<open>The result: the risk entries \<^verbatim>\<open>{"context", "risk_score"}\<close> of each dimension and the
  entries \<^verbatim>\<open>{"type", "context"}\<close> of \<^verbatim>\<open>"protective_factors"\<close>.\<close>

record trigger_patterns =
  locations :: "(string \<times> real) list"
  activities :: "(string \<times> real) list"
  social :: "(string \<times> real) list"
  protective_factors :: "(string \<times> string) list"

definition zero_impact :: impact where
  "zero_impact = \<lparr>positive = 0, negative = 0, impact_count = 0\<rparr>"

definition is_negative :: "mood_checkin \<Rightarrow> bool" where
  "is_negative c =
     (mood_score c \<le> 4 \<or> (case anxiety_level c of None \<Rightarrow> False | Some a \<Rightarrow> a \<noteq> 0 \<and> a \<ge> 7))"

definition is_positive :: "mood_checkin \<Rightarrow> bool" where
  "is_positive c = (mood_score c \<ge> 7)"

definition add_impact :: "mood_checkin \<Rightarrow> impact \<Rightarrow> impact" where
  "add_impact c i =
     i\<lparr>impact_count := impact_count i + 1,
       negative := (if is_negative c then negative i + 1 else negative i),
       positive := (if is_positive c then positive i + 1 else positive i)\<rparr>"

text \<open>One dimension of the loop over the check-ins: \<open>field\<close> reads the column, and a column
  that is null or the empty string is skipped.\<close>

definition impact_step ::
  "(mood_checkin \<Rightarrow> string option) \<Rightarrow> (string \<times> impact) list \<Rightarrow> mood_checkin
     \<Rightarrow> (string \<times> impact) list" where
  "impact_step field acc c =
     (case field c of
        None \<Rightarrow> acc
      | Some v \<Rightarrow> (if v = [] then acc else dict_update v zero_impact (add_impact c) acc))"

definition impact_of ::
  "(mood_checkin \<Rightarrow> string option) \<Rightarrow> mood_checkin list \<Rightarrow> (string \<times> impact) list" where
  "impact_of field checkins = foldl (impact_step field) [] checkins"

text \<open>One of the three classification passes: it appends to the risk list of its
  dimension and to the shared list of protective factors.\<close>

definition classify_step ::
  "string \<Rightarrow> (string \<times> real) list \<times> (string \<times> string) list \<Rightarrow> string \<times> impact
     \<Rightarrow> (string \<times> real) list \<times> (string \<times> string) list" where
  "classify_step kind acc item =
     (let (risk, protective) = acc; (v, d) = item
      in if impact_count d \<ge> 3
         then (let neg_rate = of_int (negative d) / of_int (impact_count d)
               in if neg_rate \<ge> 6 / 10 then (risk @ [(v, py_round neg_rate 2)], protective)
                  else if of_int (positive d) / of_int (impact_count d) \<ge> (6 / 10 :: real)
                       then (risk, protective @ [(kind, v)])
                       else (risk, protective))
         else (risk, protective))"

definition learn_trigger_patterns :: "mood_checkin list \<Rightarrow> trigger_patterns option" where
  "learn_trigger_patterns checkins =
     (if length checkins < 15 then None
      else
        (let location_impact = impact_of context_location checkins;
             activity_impact = impact_of context_activity checkins;
             social_impact = impact_of context_social checkins;
             (locs, p1) = foldl (classify_step ''location'') ([], []) location_impact;
             (acts, p2) = foldl (classify_step ''activity'') ([], p1) activity_impact;
             (socs, p3) = foldl (classify_step ''social'') ([], p2) social_impact
         in Some \<lparr>locations = locs, activities = acts, social = socs,
                  protective_factors = p3\<rparr>))"

section \<open>Mood forecaster\<close>

text \<open>
  Model of \<^verbatim>\<open>app/services/mood_prediction.py\<close>. The query result \<open>checkins\<close> (newest first in
  \<^verbatim>\<open>predict_next_mood\<close>), the stored pattern dictionary and the hour and weekday name of the
  target time are the inputs; the timestamps of the answer are left out.
\<close>

record mood_prediction =
  predicted_mood :: real
  predicted_energy :: real
  confidence :: real
  trend_direction :: string
  insights :: "string list"
  based_on_checkins :: nat

datatype prediction = Unavailable string | Available mood_prediction

fun string_of_nat :: "nat \<Rightarrow> string" where
  "string_of_nat n =
     (if n < 10 then [char_of (48 + n)]
      else string_of_nat (n div 10) @ [char_of (48 + n mod 10)])"

text \<open>The smoothing loop starts at the last element and walks to index 0.\<close>

definition smooth :: "real list \<Rightarrow> real" where
  "smooth xs = foldr (\<lambda>x s. (3 / 10) * x + (1 - 3 / 10) * s) (butlast xs) (last xs)"

definition recent_avg :: "mood_checkin list \<Rightarrow> real" where
  "recent_avg checkins = of_int (sum_list (map mood_score (take 3 checkins))) / 3"

definition older_avg :: "mood_checkin list \<Rightarrow> real" where
  "older_avg checkins =
     of_int (sum_list (map mood_score (drop 3 (take (min 7 (length checkins)) checkins))))
       / of_int (max 1 (min 4 (int (length checkins) - 3)))"

definition trend_of :: "mood_checkin list \<Rightarrow> string" where
  "trend_of checkins =
     (if recent_avg checkins - older_avg checkins > 5 / 10 then ''improving''
      else if recent_avg checkins - older_avg checkins < - (5 / 10) then ''declining''
      else ''stable'')"

definition lookup_bucket :: "('k \<times> time_bucket) list option \<Rightarrow> 'k \<Rightarrow> time_bucket option" where
  "lookup_bucket buckets k = (case buckets of None \<Rightarrow> None | Some kvs \<Rightarrow> map_of kvs k)"

definition in_hours :: "nat list option \<Rightarrow> nat \<Rightarrow> bool" where
  "in_hours hours h = (case hours of None \<Rightarrow> False | Some hs \<Rightarrow> h \<in> set hs)"

text \<open>The adjustment by the hourly bucket (mood, energy and confidence after it) and by
  the daily bucket (mood and confidence after it).\<close>

definition blend_hourly :: "circadian \<Rightarrow> nat \<Rightarrow> real \<Rightarrow> real \<Rightarrow> real \<times> real \<times> real" where
  "blend_hourly circ target_hour smoothed_mood smoothed_energy =
     (case lookup_bucket (hourly circ) target_hour of
        None \<Rightarrow> (smoothed_mood, smoothed_energy, 5 / 10)
      | Some hour_data \<Rightarrow>
          (let weight = min (of_int (sample_count hour_data) / 20) (7 / 10)
           in ((1 - weight) * smoothed_mood + weight * avg_mood hour_data,
               (1 - weight) * smoothed_energy + weight * avg_energy hour_data,
               5 / 10 + 2 / 10)))"

definition blend_daily :: "circadian \<Rightarrow> string \<Rightarrow> real \<Rightarrow> real \<Rightarrow> real \<times> real" where
  "blend_daily circ target_day mood1 conf1 =
     (case lookup_bucket (daily circ) target_day of
        None \<Rightarrow> (mood1, conf1)
      | Some day_data \<Rightarrow>
          (let weight = min (of_int (sample_count day_data) / 15) (3 / 10)
           in (mood1 * (1 - weight) + avg_mood day_data * weight, conf1 + 1 / 10)))"

definition forecast_insights :: "circadian \<Rightarrow> nat \<Rightarrow> string \<Rightarrow> string list" where
  "forecast_insights circ target_hour trend =
     (if in_hours (worst_hours circ) target_hour
      then [''This is typically a challenging time for you (around ''
              @ string_of_nat target_hour @ '':00)'']
      else [])
     @ (if in_hours (best_hours circ) target_hour
        then [''This is typically your best time (around ''
                @ string_of_nat target_hour @ '':00)'']
        else [])
     @ (if trend = ''improving'' then [''Your mood has been trending upward recently'']
        else if trend = ''declining''
        then [''Your mood has been trending downward - consider proactive self-care'']
        else [])"

definition predict_next_mood ::
  "mood_checkin list \<Rightarrow> circadian \<Rightarrow> nat \<Rightarrow> string \<Rightarrow> prediction" where
  "predict_next_mood checkins circ target_hour target_day =
     (if length checkins < 5 then Unavailable ''Need at least 5 check-ins in the past 2 weeks''
      else
        (let smoothed_mood = smooth (map (\<lambda>c. of_int (mood_score c)) checkins);
             smoothed_energy = smooth (map (\<lambda>c. of_int (energy_level c)) checkins);
             trend = trend_of checkins;
             (mood1, energy1, conf1) =
               blend_hourly circ target_hour smoothed_mood smoothed_energy;
             (mood2, conf2) = blend_daily circ target_day mood1 conf1
         in Available
              \<lparr>predicted_mood = max 1 (min 10 (py_round mood2 1)),
               predicted_energy = max 1 (min 10 (py_round energy1 1)),
               confidence = py_round (min conf2 (95 / 100)) 2,
               trend_direction = trend,
               insights = forecast_insights circ target_hour trend,
               based_on_checkins = length checkins\<rparr>))"

subsection \<open>The multi-day forecast\<close>

text \<open>The body of the loop over the three periods of one day. Over the reals
  \<open>baseline_mood + (day_avg - baseline_mood)\<close> is \<open>day_avg\<close>; the float sum can be a unit in
  the last place off, which the property of the forecast allows for by its tolerance.\<close>

definition period_mood :: "circadian \<Rightarrow> real \<Rightarrow> real \<Rightarrow> nat \<Rightarrow> real" where
  "period_mood circ baseline_mood day_adjustment hour =
     (let hour_mood = baseline_mood + day_adjustment;
          hour_mood = (case lookup_bucket (hourly circ) hour of
                         None \<Rightarrow> hour_mood
                       | Some b \<Rightarrow> (hour_mood + avg_mood b) / 2)
      in py_round (max 1 (min 10 hour_mood)) 1)"

definition times :: "(string \<times> nat) list" where
  "times = [(''morning'', 8), (''afternoon'', 14), (''evening'', 20)]"

text \<open>\<open>day_names\<close> lists the weekday name of each day of the horizon, starting today. A day
  forecast is the weekday name with the periods (name, hour, predicted mood).\<close>

definition get_mood_forecast ::
  "mood_checkin list \<Rightarrow> circadian \<Rightarrow> string list \<Rightarrow> (string \<times> (string \<times> nat \<times> real) list) list" where
  "get_mood_forecast checkins circ day_names =
     (if length checkins < 10 then []
      else
        (let baseline_mood =
               of_int (sum_list (map mood_score checkins)) / of_nat (length checkins)
         in map (\<lambda>day_name.
                  (let day_adjustment =
                         (case lookup_bucket (daily circ) day_name of
                            None \<Rightarrow> 0
                          | Some b \<Rightarrow> avg_mood b - baseline_mood)
                   in (day_name,
                       map (\<lambda>(period_name, hour).
                              (period_name, hour,
                               period_mood circ baseline_mood day_adjustment hour))
                           times)))
                day_names))"

section \<open>Recommendation ranker\<close>

text \<open>
  Model of the selection stage of \<^verbatim>\<open>get_recommendations\<close> in
  \<^verbatim>\<open>app/services/recommendation.py\<close>: the scored candidates (the filtered pool with the
  score of each) are sorted, cut to 15, passed through
  \<^verbatim>\<open>_ensure_diversity_with_exploration\<close> and cut to 3.
\<close>

record intervention =
  name :: string
  therapeutic_approach :: string

record scored_intervention =
  intervention :: intervention
  score :: real
  ml_score :: real
  rule_score :: real
  why_recommended :: string

definition sort_by_score :: "scored_intervention list \<Rightarrow> scored_intervention list" where
  "sort_by_score items = sort_key (\<lambda>x. - score x) items"

definition exploration_rate :: "int \<Rightarrow> real" where
  "exploration_rate n_total = max (1 / 10) (3 / 10 - of_int n_total / 200)"

text \<open>The loop of \<^verbatim>\<open>_ensure_diversity_with_exploration\<close> with its two local variables.\<close>

fun diversity_loop ::
  "real \<Rightarrow> scored_intervention list \<Rightarrow> scored_intervention list \<Rightarrow> string set
     \<Rightarrow> scored_intervention list" where
  "diversity_loop rate [] selected approaches_used = selected"
| "diversity_loop rate (item # rest) selected approaches_used =
     (let approach = therapeutic_approach (intervention item);
          item1 = (if approach \<notin> approaches_used
                   then item\<lparr>score := score item * (1 + rate)\<rparr> else item);
          take_it = (approach \<notin> approaches_used \<or> length selected < 3);
          selected1 = (if take_it then selected @ [item1] else selected);
          used1 = (if take_it then insert approach approaches_used else approaches_used)
      in if length selected1 \<ge> 3 then selected1
         else diversity_loop rate rest selected1 used1)"

definition ensure_diversity_with_exploration ::
  "scored_intervention list \<Rightarrow> int \<Rightarrow> scored_intervention list" where
  "ensure_diversity_with_exploration scored_interventions n_total =
     (if length scored_interventions \<le> 3 then scored_interventions
      else sort_by_score (diversity_loop (exploration_rate n_total) scored_interventions [] {}))"

definition top_recommendations :: "scored_intervention list \<Rightarrow> int \<Rightarrow> scored_intervention list" where
  "top_recommendations scored_interventions n_total =
     take 3 (ensure_diversity_with_exploration (take 15 (sort_by_score scored_interventions)) n_total)"

section \<open>Notions used by the properties\<close>

text \<open>The pseudo-count \<open>alpha + beta - 2\<close> and the usage count of an intervention (both 0
  while it has no belief), and the number of events of a sequence that rate it.\<close>

definition pseudo_count :: "database \<Rightarrow> user_id \<Rightarrow> string \<Rightarrow> real" where
  "pseudo_count db uid k =
     (case belief_of db uid k of None \<Rightarrow> 0 | Some b \<Rightarrow> alpha b + beta b - 2)"

definition usage_count :: "database \<Rightarrow> user_id \<Rightarrow> string \<Rightarrow> int" where
  "usage_count db uid k = (case belief_of db uid k of None \<Rightarrow> 0 | Some b \<Rightarrow> count b)"

definition events_for :: "string \<Rightarrow> (string \<times> int \<times> ml_context) list \<Rightarrow> nat" where
  "events_for k events = length (filter (\<lambda>e. fst e = k) events)"

text \<open>Concrete inputs for the examples.\<close>

definition no_context :: ml_context where
  "no_context = \<lparr>ctx_emotion = None, ctx_energy_level = None, ctx_time_of_day = None\<rparr>"

definition breathing_request :: update_belief_request where
  "breathing_request =
     \<lparr>intervention_id = ''breathing'', effectiveness_rating = 3,
      context_emotion = Some ''anxiety'', context_energy_level = None,
      context_time_of_day = None\<rparr>"

definition plain_checkin :: "int \<Rightarrow> mood_checkin" where
  "plain_checkin m =
     \<lparr>created_hour = 12, created_weekday = ''Monday'', mood_score = m, energy_level = 5,
      anxiety_level = None, context_location = None, context_activity = None,
      context_social = None\<rparr>"

definition anxious_context :: ml_context where
  "anxious_context =
     \<lparr>ctx_emotion = Some ''anxiety'', ctx_energy_level = Some 5, ctx_time_of_day = Some ''am''\<rparr>"

definition seen_db :: database where
  "seen_db =
     Map.empty(1 \<mapsto>
       \<lparr>intervention_prior_beliefs =
          Map.empty(''breathing'' \<mapsto>
            \<lparr>alpha = 4, beta = 2, count = 4,
             contexts = Map.empty(''anxiety_medium_am'' \<mapsto> \<lparr>alpha = 3, beta = 1, count = 3\<rparr>)\<rparr>),
        total_interactions = 4, model_version = 1, last_model_update = None\<rparr>)"

text \<open>A source of variates for the examples: it returns \<open>\<bar>shape\<bar> + 1\<close> and counts the draws.\<close>

definition counting_gamma :: "real \<Rightarrow> real \<Rightarrow> nat \<Rightarrow> real \<times> nat" where
  "counting_gamma a b s = (\<bar>a\<bar> + 1, s + 1)"

text \<open>The arithmetic mean, and the trend difference in the words of the specification:
  the mean of the 3 most recent check-ins minus the mean of the (up to 4) check-ins
  before them.\<close>

definition mean :: "int list \<Rightarrow> real" where
  "mean xs = of_int (sum_list xs) / of_nat (length xs)"

definition trend_difference :: "mood_checkin list \<Rightarrow> real" where
  "trend_difference checkins =
     mean (map mood_score (take 3 checkins)) - mean (map mood_score (take 4 (drop 3 checkins)))"

definition extreme_patterns :: circadian where
  "extreme_patterns =
     \<lparr>hourly = Some [(20, \<lparr>avg_mood = 50, avg_energy = - 3, sample_count = 40\<rparr>)],
      daily = Some [(''Monday'', \<lparr>avg_mood = 40, avg_energy = 5, sample_count = 30\<rparr>)],
      best_hours = Some [20], worst_hours = Some [20], best_days = Some [''Monday'']\<rparr>"

text \<open>The value that one slot of the multi-day forecast approximates, stated on its own:
  the base is the average mood of the weekday bucket when there is one and the mean of all
  the moods otherwise, and it is averaged with the hourly bucket when there is one.\<close>

definition slot_target :: "mood_checkin list \<Rightarrow> circadian \<Rightarrow> string \<Rightarrow> nat \<Rightarrow> real" where
  "slot_target checkins circ day hour =
     (let base = (case lookup_bucket (daily circ) day of
                    Some b \<Rightarrow> avg_mood b
                  | None \<Rightarrow> mean (map mood_score checkins))
      in (case lookup_bucket (hourly circ) hour of
            Some b \<Rightarrow> (base + avg_mood b) / 2
          | None \<Rightarrow> base))"

definition mild_patterns :: circadian where
  "mild_patterns =
     \<lparr>hourly = Some [(20, \<lparr>avg_mood = 71 / 10, avg_energy = 6, sample_count = 4\<rparr>)],
      daily = Some [(''Monday'', \<lparr>avg_mood = 61 / 10, avg_energy = 5, sample_count = 3\<rparr>)],
      best_hours = Some [20], worst_hours = Some [20], best_days = Some [''Monday'']\<rparr>"

definition spike_history :: "mood_checkin list" where
  "spike_history = map plain_checkin [10, 1, 1, 1, 1, 1, 1, 1, 1, 1]"

text \<open>A candidate with a given name, approach and score, and a pool of four candidates
  with three distinct approaches, listed with descending scores.\<close>

definition candidate :: "string \<Rightarrow> string \<Rightarrow> real \<Rightarrow> scored_intervention" where
  "candidate n a s =
     \<lparr>intervention = \<lparr>name = n, therapeutic_approach = a\<rparr>, score = s, ml_score = s,
      rule_score = s, why_recommended = []\<rparr>"

definition diverse_pool :: "scored_intervention list" where
  "diverse_pool =
     [candidate ''Thought record'' ''CBT'' (9 / 10), candidate ''Reframing'' ''CBT'' (8 / 10),
      candidate ''Paced breathing'' ''DBT'' (7 / 10), candidate ''Values check'' ''ACT'' (6 / 10)]"

text \<open>The number of check-ins of a history that fall into the hourly bucket \<open>h\<close>.\<close>

definition samples_at :: "mood_checkin list \<Rightarrow> nat \<Rightarrow> nat" where
  "samples_at checkins h = length (filter (\<lambda>c. created_hour c = h) checkins)"

text \<open>The two tests of the classification loop on the accumulator of one context value.\<close>

definition is_risk :: "impact \<Rightarrow> bool" where
  "is_risk d =
     (impact_count d \<ge> 3 \<and> of_int (negative d) / of_int (impact_count d) \<ge> (6 / 10 :: real))"

definition is_protective :: "impact \<Rightarrow> bool" where
  "is_protective d =
     (impact_count d \<ge> 3 \<and> \<not> of_int (negative d) / of_int (impact_count d) \<ge> (6 / 10 :: real)
      \<and> of_int (positive d) / of_int (impact_count d) \<ge> (6 / 10 :: real))"

text \<open>The sample count that the hourly accumulator holds for an hour (0 for an hour
  without an entry).\<close>

definition count_in :: "(nat \<times> pattern_sums) list \<Rightarrow> nat \<Rightarrow> int" where
  "count_in kvs h = (case map_of kvs h of None \<Rightarrow> 0 | Some s \<Rightarrow> sum_count s)"

text \<open>Histories for the examples: ten check-ins of which two hours have three samples,
  and fifteen check-ins at three locations.\<close>

definition checkin_at :: "nat \<Rightarrow> int \<Rightarrow> mood_checkin" where
  "checkin_at h m = (plain_checkin m)\<lparr>created_hour := h\<rparr>"

definition hour_history :: "mood_checkin list" where
  "hour_history =
     [checkin_at 9 4, checkin_at 20 7, checkin_at 9 4, checkin_at 20 7, checkin_at 9 4,
      checkin_at 20 7, checkin_at 13 5, checkin_at 14 5, checkin_at 15 5, checkin_at 16 5]"

definition located :: "string \<Rightarrow> int \<Rightarrow> int option \<Rightarrow> mood_checkin" where
  "located loc m anx = (plain_checkin m)\<lparr>context_location := Some loc, anxiety_level := anx\<rparr>"

definition location_history :: "mood_checkin list" where
  "location_history =
     [located ''work'' 2 None, located ''park'' 8 None, located ''gym'' 8 (Some 9),
      located ''work'' 3 None, located ''park'' 9 None, located ''gym'' 8 (Some 9),
      located ''work'' 2 None, located ''park'' 7 None, located ''gym'' 9 (Some 8),
      plain_checkin 5, plain_checkin 5, plain_checkin 5, plain_checkin 5, plain_checkin 5,
      plain_checkin 5]"

section \<open>Properties of the belief store\<close>

text \<open>Every update leaves a row for the user, with one more interaction than the row it
  started from (the new row of \<^verbatim>\<open>get_or_create_user_model\<close> when there was none).\<close>

lemma update_row:
  "\<exists>m. update_intervention_belief now db uid k r c uid = Some m
     \<and> total_interactions m = total_interactions (fst (get_or_create_user_model db uid)) + 1
     \<and> model_version m = model_version (fst (get_or_create_user_model db uid))"
  by (simp add: update_intervention_belief_def commit_row_def get_or_create_user_model_def
        Let_def split: option.splits)

text \<open>Once the stored dictionary of a user is not empty, an update changes no stored
  belief: the dictionary is changed in place and assigned back, which the commit does not
  write.\<close>

lemma stored_beliefs_frozen:
  assumes "db uid = Some m" and "intervention_prior_beliefs m \<noteq> Map.empty"
  shows "belief_of (update_intervention_belief now db uid k r c) uid k' = belief_of db uid k'"
  using assms
  by (simp add: update_intervention_belief_def commit_row_def get_or_create_user_model_def
        belief_of_def Let_def)

lemma first_feedback_stored:
  assumes "db uid = None"
  shows "belief_of (update_intervention_belief now db uid k r c) uid k \<noteq> None"
  using assms
  by (simp add: update_intervention_belief_def commit_row_def get_or_create_user_model_def
        new_user_model_def belief_of_def Let_def)

text \<open>
  Claim C2 at a concrete sequence. A user without a model row rates the intervention
  "breathing" with 5 and then with 4. Two feedback events are recorded (the row counts two
  interactions), and the stored global belief has \<open>alpha + beta - 2 = 1\<close> and a count of 1:
  the first update assigns a new dictionary, which is stored, and the second changes the
  loaded dictionary in place and assigns the same object back, which is not stored.
\<close>

theorem later_feedback_not_stored:
  "events_for ''breathing'' [(''breathing'', 5, no_context), (''breathing'', 4, no_context)] = 2
   \<and> pseudo_count (record_feedbacks 0 Map.empty 1
         [(''breathing'', 5, no_context), (''breathing'', 4, no_context)]) 1 ''breathing'' = 1
   \<and> usage_count (record_feedbacks 0 Map.empty 1
         [(''breathing'', 5, no_context), (''breathing'', 4, no_context)]) 1 ''breathing'' = 1
   \<and> map_option total_interactions (record_feedbacks 0 Map.empty 1
         [(''breathing'', 5, no_context), (''breathing'', 4, no_context)] 1) = Some 2"
  by (simp add: events_for_def pseudo_count_def usage_count_def belief_of_def
        update_intervention_belief_def commit_row_def get_or_create_user_model_def
        new_user_model_def prior_belief_def prior_ctx_belief_def rating_success_def
        get_context_key_def no_context_def Let_def)

text \<open>
  Claim C3 at a concrete state. After a first rating of 5 the stored belief of
  "breathing" has \<open>alpha = 2\<close> and \<open>beta = 1\<close>, a posterior mean of 2/3. One more update with
  rating 5 leaves the stored posterior mean at 2/3, and so does one more update with rating
  1: the change in place is not stored.
\<close>

theorem posterior_mean_not_moved_by_later_rating:
  "map_option posterior_mean
     (belief_of (update_intervention_belief 0 Map.empty 1 ''breathing'' 5 no_context)
        1 ''breathing'') = Some (2 / 3)
   \<and> map_option posterior_mean
       (belief_of (update_intervention_belief 0
           (update_intervention_belief 0 Map.empty 1 ''breathing'' 5 no_context)
           1 ''breathing'' 5 no_context) 1 ''breathing'') = Some (2 / 3)
   \<and> map_option posterior_mean
       (belief_of (update_intervention_belief 0
           (update_intervention_belief 0 Map.empty 1 ''breathing'' 5 no_context)
           1 ''breathing'' 1 no_context) 1 ''breathing'') = Some (2 / 3)"
  by (simp add: posterior_mean_def belief_of_def
        update_intervention_belief_def commit_row_def get_or_create_user_model_def
        new_user_model_def prior_belief_def prior_ctx_belief_def rating_success_def
        get_context_key_def no_context_def Let_def)

text \<open>
  Claim C9, as stated, fails: a request with the rating 3 and the context energy level
  11 is rejected with a validation error, because the schema also bounds the optional
  energy level by 1..10.
\<close>

theorem record_feedback_energy_counterexample:
  "1 \<le> effectiveness_rating (breathing_request\<lparr>context_energy_level := Some 11\<rparr>)
   \<and> effectiveness_rating (breathing_request\<lparr>context_energy_level := Some 11\<rparr>) \<le> 5
   \<and> update_belief_endpoint 0 Map.empty 7 (breathing_request\<lparr>context_energy_level := Some 11\<rparr>)
       = Inl ValidationError"
  by (simp add: breathing_request_def update_belief_endpoint_def
        validate_update_belief_request_def)

text \<open>
  Claim C9, amended. The update-belief operation answers a validation error for every
  rating below 1 or above 5. For a rating in 1..5 in a request whose optional context
  energy level is absent or within 1..10 it does not fail: it returns the new state, in
  which the user has a model row with one more interaction than before; a missing row is
  created on the way (it then counts 1 interaction and holds a belief for the
  intervention).
\<close>

theorem record_feedback_validation:
  "(effectiveness_rating req < 1 \<or> 5 < effectiveness_rating req
      \<longrightarrow> update_belief_endpoint now db uid req = Inl ValidationError)
   \<and> (1 \<le> effectiveness_rating req \<and> effectiveness_rating req \<le> 5
        \<and> (case context_energy_level req of None \<Rightarrow> True | Some e \<Rightarrow> 1 \<le> e \<and> e \<le> 10)
      \<longrightarrow> (\<exists>db' m. update_belief_endpoint now db uid req = Inr db'
                 \<and> db' uid = Some m
                 \<and> total_interactions m =
                     (case db uid of None \<Rightarrow> 0 | Some m0 \<Rightarrow> total_interactions m0) + 1
                 \<and> (db uid = None \<longrightarrow> belief_of db' uid (intervention_id req) \<noteq> None)))"
proof (intro conjI impI)
  assume "effectiveness_rating req < 1 \<or> 5 < effectiveness_rating req"
  then show "update_belief_endpoint now db uid req = Inl ValidationError"
    by (auto simp: update_belief_endpoint_def validate_update_belief_request_def)
next
  assume ok: "1 \<le> effectiveness_rating req \<and> effectiveness_rating req \<le> 5
        \<and> (case context_energy_level req of None \<Rightarrow> True | Some e \<Rightarrow> 1 \<le> e \<and> e \<le> 10)"
  then have v: "validate_update_belief_request req = Inr req"
    by (auto simp: validate_update_belief_request_def split: option.splits)
  let ?ctx = "\<lparr>ctx_emotion = Some (str_or (context_emotion req) ''unknown''),
               ctx_energy_level = Some (int_or (context_energy_level req) 5),
               ctx_time_of_day = Some (str_or (context_time_of_day req) ''unknown'')\<rparr>"
  let ?db = "update_intervention_belief now db uid (intervention_id req)
               (effectiveness_rating req) ?ctx"
  have e: "update_belief_endpoint now db uid req = Inr ?db"
    using v by (simp add: update_belief_endpoint_def)
  obtain m where m: "?db uid = Some m"
    and t: "total_interactions m = total_interactions (fst (get_or_create_user_model db uid)) + 1"
    using update_row[of now db uid "intervention_id req" "effectiveness_rating req" ?ctx]
    by blast
  have t': "total_interactions m =
              (case db uid of None \<Rightarrow> 0 | Some m0 \<Rightarrow> total_interactions m0) + 1"
    using t by (simp add: get_or_create_user_model_def new_user_model_def split: option.splits)
  have f: "db uid = None \<longrightarrow> belief_of ?db uid (intervention_id req) \<noteq> None"
    using first_feedback_stored[of db uid now "intervention_id req" "effectiveness_rating req" ?ctx]
    by blast
  show "\<exists>db' m. update_belief_endpoint now db uid req = Inr db'
                 \<and> db' uid = Some m
                 \<and> total_interactions m =
                     (case db uid of None \<Rightarrow> 0 | Some m0 \<Rightarrow> total_interactions m0) + 1
                 \<and> (db uid = None \<longrightarrow> belief_of db' uid (intervention_id req) \<noteq> None)"
    by (intro exI[of _ ?db] exI[of _ m] conjI) (rule e, rule m, rule t', rule f)
qed

theorem record_feedback_validation_witness:
  "update_belief_endpoint 0 Map.empty 7 (breathing_request\<lparr>effectiveness_rating := 6\<rparr>)
     = Inl ValidationError
   \<and> update_belief_endpoint 0 Map.empty 7 (breathing_request\<lparr>effectiveness_rating := 0\<rparr>)
     = Inl ValidationError
   \<and> (\<exists>db' m. update_belief_endpoint 0 Map.empty 7 breathing_request = Inr db'
         \<and> db' 7 = Some m \<and> total_interactions m = 1
         \<and> belief_of db' 7 ''breathing'' \<noteq> None)"
  using record_feedback_validation[of "breathing_request\<lparr>effectiveness_rating := 6\<rparr>" 0 Map.empty 7]
    record_feedback_validation[of "breathing_request\<lparr>effectiveness_rating := 0\<rparr>" 0 Map.empty 7]
    record_feedback_validation[of breathing_request 0 Map.empty 7]
  by (simp add: breathing_request_def)

text \<open>
  Claim C4. Let every variate of the generator be positive. Then
  \<^verbatim>\<open>sample_intervention_effectiveness\<close> draws from \<open>Beta(1, 1)\<close> when the intervention has
  no belief; when it has one, it draws from the sub-belief of the context key if that
  sub-belief exists with a count of at least 3, and from the global belief if the
  sub-belief is missing or has a count below 3; and in every case it returns a value
  between 0 and 1.
\<close>

theorem sampling_source_and_range:
  assumes pos: "\<forall>a b s. 0 < fst (gammavariate a b s)"
  shows "(belief_of db uid k = None \<longrightarrow>
            fst (sample_intervention_effectiveness gammavariate db uid k ctx rs)
              = sample_beta gammavariate 1 1 rs)
       \<and> (\<forall>b. belief_of db uid k = Some b \<longrightarrow>
            (\<forall>cb. contexts b (get_context_key ctx) = Some cb \<and> 3 \<le> count cb \<longrightarrow>
               fst (sample_intervention_effectiveness gammavariate db uid k ctx rs)
                 = sample_beta gammavariate (alpha cb) (beta cb) rs)
          \<and> ((contexts b (get_context_key ctx) = None
               \<or> (\<exists>cb. contexts b (get_context_key ctx) = Some cb \<and> count cb < 3)) \<longrightarrow>
               fst (sample_intervention_effectiveness gammavariate db uid k ctx rs)
                 = sample_beta gammavariate (alpha b) (beta b) rs))
       \<and> (\<exists>v. fst (fst (sample_intervention_effectiveness gammavariate db uid k ctx rs)) = Inr v
              \<and> 0 \<le> v \<and> v \<le> 1)"
proof -
  have range: "\<exists>v. fst (sample_beta gammavariate a b rs) = Inr v \<and> 0 \<le> v \<and> v \<le> 1" for a b
  proof -
    obtain x rs1 where x: "gammavariate a 1 rs = (x, rs1)" by (cases "gammavariate a 1 rs")
    obtain y rs2 where y: "gammavariate b 1 rs1 = (y, rs2)" by (cases "gammavariate b 1 rs1")
    have "0 < x" using pos[rule_format, of a 1 rs] x by simp
    moreover have "0 < y" using pos[rule_format, of b 1 rs1] y by simp
    ultimately have "x + y \<noteq> 0" and "0 \<le> x / (x + y)" and "x / (x + y) \<le> 1"
      by (simp_all add: divide_simps)
    then show ?thesis using x y by (simp add: sample_beta_def)
  qed
  have sel: "\<exists>a b. fst (sample_intervention_effectiveness gammavariate db uid k ctx rs)
                     = sample_beta gammavariate a b rs"
    by (auto simp: sample_intervention_effectiveness_def get_or_create_user_model_def Let_def
          split: option.splits)
  have c1: "belief_of db uid k = None \<longrightarrow>
            fst (sample_intervention_effectiveness gammavariate db uid k ctx rs)
              = sample_beta gammavariate 1 1 rs"
    by (auto simp: sample_intervention_effectiveness_def get_or_create_user_model_def Let_def
          belief_of_def new_user_model_def split: option.splits)
  have c2: "\<forall>b. belief_of db uid k = Some b \<longrightarrow>
            (\<forall>cb. contexts b (get_context_key ctx) = Some cb \<and> 3 \<le> count cb \<longrightarrow>
               fst (sample_intervention_effectiveness gammavariate db uid k ctx rs)
                 = sample_beta gammavariate (alpha cb) (beta cb) rs)
          \<and> ((contexts b (get_context_key ctx) = None
               \<or> (\<exists>cb. contexts b (get_context_key ctx) = Some cb \<and> count cb < 3)) \<longrightarrow>
               fst (sample_intervention_effectiveness gammavariate db uid k ctx rs)
                 = sample_beta gammavariate (alpha b) (beta b) rs)"
    by (auto simp: sample_intervention_effectiveness_def get_or_create_user_model_def Let_def
          belief_of_def new_user_model_def split: option.splits)
  from sel range
  have c3: "\<exists>v. fst (fst (sample_intervention_effectiveness gammavariate db uid k ctx rs)) = Inr v
              \<and> 0 \<le> v \<and> v \<le> 1"
    by auto
  from c1 c2 c3 show ?thesis by blast
qed

theorem sampling_source_and_range_witness:
  "(\<forall>a b s. 0 < fst (counting_gamma a b s))
   \<and> fst (sample_intervention_effectiveness counting_gamma seen_db 1 ''breathing'' anxious_context 0)
       = sample_beta counting_gamma 3 1 0
   \<and> fst (sample_intervention_effectiveness counting_gamma seen_db 1 ''breathing'' no_context 0)
       = sample_beta counting_gamma 4 2 0
   \<and> fst (sample_intervention_effectiveness counting_gamma seen_db 1 ''walking'' no_context 0)
       = sample_beta counting_gamma 1 1 0
   \<and> sample_beta counting_gamma 3 1 0 = (Inr (2 / 3), 2)"
proof -
  have h: "\<forall>a b s. 0 < fst (counting_gamma a b (s::nat))"
    by (simp add: counting_gamma_def add_nonneg_pos)
  show ?thesis
    using h
      sampling_source_and_range[OF h, of seen_db 1 "''breathing''" anxious_context 0]
      sampling_source_and_range[OF h, of seen_db 1 "''breathing''" no_context 0]
      sampling_source_and_range[OF h, of seen_db 1 "''walking''" no_context 0]
    by (simp add: belief_of_def seen_db_def get_context_key_def
          anxious_context_def no_context_def)
       (simp add: sample_beta_def counting_gamma_def)
qed

section \<open>Properties of the forecaster\<close>

lemma older_slice: "drop 3 (take (min 7 (length cs)) cs) = take 4 (drop 3 cs)"
proof (cases "7 \<le> length cs")
  case True
  then show ?thesis by (simp add: drop_take min_def)
next
  case False
  then have "drop 3 (take (min 7 (length cs)) cs) = drop 3 cs" by (simp add: min_def)
  moreover have "take 4 (drop 3 cs) = drop 3 cs" using False by simp
  ultimately show ?thesis by simp
qed

lemma trend_difference_eq:
  assumes "5 \<le> length cs"
  shows "recent_avg cs - older_avg cs = trend_difference cs"
proof -
  have l3: "length (take 3 cs) = 3" using assms by simp
  have n: "of_int (max 1 (min 4 (int (length cs) - 3)))
             = (of_nat (length (take 4 (drop 3 cs))) :: real)"
    using assms by (auto simp: min_def max_def)
  show ?thesis
    unfolding recent_avg_def older_avg_def trend_difference_def mean_def older_slice n
    using l3 by simp
qed

lemma predict_next_mood_available:
  assumes "5 \<le> length cs"
  shows "predict_next_mood cs circ h d =
    Available
      \<lparr>predicted_mood =
         max 1 (min 10 (py_round (fst (blend_daily circ d
            (fst (blend_hourly circ h (smooth (map (\<lambda>c. of_int (mood_score c)) cs))
                                     (smooth (map (\<lambda>c. of_int (energy_level c)) cs))))
            (snd (snd (blend_hourly circ h (smooth (map (\<lambda>c. of_int (mood_score c)) cs))
                                     (smooth (map (\<lambda>c. of_int (energy_level c)) cs))))))) 1)),
       predicted_energy =
         max 1 (min 10 (py_round (fst (snd (blend_hourly circ h
            (smooth (map (\<lambda>c. of_int (mood_score c)) cs))
            (smooth (map (\<lambda>c. of_int (energy_level c)) cs))))) 1)),
       confidence =
         py_round (min (snd (blend_daily circ d
            (fst (blend_hourly circ h (smooth (map (\<lambda>c. of_int (mood_score c)) cs))
                                     (smooth (map (\<lambda>c. of_int (energy_level c)) cs))))
            (snd (snd (blend_hourly circ h (smooth (map (\<lambda>c. of_int (mood_score c)) cs))
                                     (smooth (map (\<lambda>c. of_int (energy_level c)) cs)))))))
                    (95 / 100)) 2,
       trend_direction = trend_of cs,
       insights = forecast_insights circ h (trend_of cs),
       based_on_checkins = length cs\<rparr>"
  using assms by (simp add: predict_next_mood_def Let_def case_prod_beta)

lemma blend_hourly_conf:
  "snd (snd (blend_hourly circ h m e)) =
     5 / 10 + (if lookup_bucket (hourly circ) h \<noteq> None then 2 / 10 else 0)"
  by (simp add: blend_hourly_def Let_def split: option.splits)

lemma blend_daily_conf:
  "snd (blend_daily circ d m c) =
     c + (if lookup_bucket (daily circ) d \<noteq> None then 1 / 10 else 0)"
  by (simp add: blend_daily_def Let_def split: option.splits)

lemma py_round_confidence:
  "py_round (1 / 2) 2 = 1 / 2" "py_round (7 / 10) 2 = 7 / 10"
  "py_round (3 / 5) 2 = 3 / 5" "py_round (4 / 5) 2 = 4 / 5"
  by (simp_all add: py_round_def round_half_even_def Let_def)

text \<open>
  Claim C5, as stated, fails on the boundary: with the moods 6, 6, 6 (newest first)
  followed by 5, 6, 5, 6 the difference of the two means is exactly 0.5, which the claim
  calls improving, and the code answers stable.
\<close>

theorem trend_boundary_counterexample:
  "trend_difference (map plain_checkin [6, 6, 6, 5, 6, 5, 6]) \<ge> 5 / 10
   \<and> trend_of (map plain_checkin [6, 6, 6, 5, 6, 5, 6]) = ''stable''"
  by (simp add: trend_difference_def mean_def trend_of_def recent_avg_def older_avg_def
        plain_checkin_def)

text \<open>
  Claim C5, amended. For every history of at least 5 recent check-ins a forecast is
  produced, and its trend direction is "improving" when the mean of the 3 most recent
  check-ins minus the mean of the preceding up-to-4 check-ins is greater than 0.5,
  "declining" when that difference is less than -0.5, and "stable" otherwise, the two
  boundary values 0.5 and -0.5 included.
\<close>

theorem trend_direction_strict_thresholds:
  assumes "5 \<le> length cs"
  shows "\<exists>p. predict_next_mood cs circ h d = Available p
           \<and> trend_direction p =
               (if trend_difference cs > 5 / 10 then ''improving''
                else if trend_difference cs < - (5 / 10) then ''declining''
                else ''stable'')"
proof -
  have "trend_of cs =
          (if trend_difference cs > 5 / 10 then ''improving''
           else if trend_difference cs < - (5 / 10) then ''declining''
           else ''stable'')"
    unfolding trend_of_def trend_difference_eq[OF assms] by simp
  then show ?thesis
    by (simp only: predict_next_mood_available[OF assms]) simp
qed

theorem trend_direction_strict_thresholds_witness:
  "5 \<le> length (map plain_checkin [8, 8, 8, 5, 5, 5, 5])
   \<and> (\<exists>p. predict_next_mood (map plain_checkin [8, 8, 8, 5, 5, 5, 5]) no_patterns 20 ''Monday''
            = Available p
          \<and> trend_direction p = ''improving'')"
  using trend_direction_strict_thresholds[of "map plain_checkin [8, 8, 8, 5, 5, 5, 5]"
          no_patterns 20 "''Monday''"]
  by (simp add: trend_difference_def mean_def plain_checkin_def)

text \<open>
  Claim C8. For every history of at least 5 check-ins (the condition under which a
  forecast is produced), every pattern state and every target hour and weekday, the
  predicted mood and the predicted energy lie between 1 and 10, and the confidence is
  0.5, plus 0.2 if an hourly bucket exists for the target hour, plus 0.1 if a daily bucket
  exists for the target weekday, capped at 0.95.
\<close>

theorem forecast_clamped_and_confidence:
  assumes "5 \<le> length cs"
  shows "\<exists>p. predict_next_mood cs circ h d = Available p
           \<and> 1 \<le> predicted_mood p \<and> predicted_mood p \<le> 10
           \<and> 1 \<le> predicted_energy p \<and> predicted_energy p \<le> 10
           \<and> confidence p =
               min (95 / 100)
                 (5 / 10 + (if lookup_bucket (hourly circ) h \<noteq> None then 2 / 10 else 0)
                         + (if lookup_bucket (daily circ) d \<noteq> None then 1 / 10 else 0))"
proof -
  let ?c = "5 / 10 + (if lookup_bucket (hourly circ) h \<noteq> None then 2 / 10 else 0)
                   + (if lookup_bucket (daily circ) d \<noteq> None then 1 / 10 else (0::real))"
  have "py_round (min ?c (95 / 100)) 2 = min (95 / 100) ?c"
    by (simp add: py_round_confidence)
  then show ?thesis
    by (simp only: predict_next_mood_available[OF assms] blend_hourly_conf blend_daily_conf)
       simp
qed

theorem forecast_clamped_and_confidence_witness:
  "5 \<le> length (map plain_checkin [1, 1, 1, 1, 1])
   \<and> (\<exists>p. predict_next_mood (map plain_checkin [1, 1, 1, 1, 1]) extreme_patterns 20 ''Monday''
            = Available p
          \<and> 1 \<le> predicted_mood p \<and> predicted_mood p \<le> 10
          \<and> 1 \<le> predicted_energy p \<and> predicted_energy p \<le> 10
          \<and> confidence p = 8 / 10)"
  using forecast_clamped_and_confidence[of "map plain_checkin [1, 1, 1, 1, 1]"
          extreme_patterns 20 "''Monday''"]
  by (simp add: lookup_bucket_def extreme_patterns_def)

text \<open>
  Claim C6, as stated, fails: the multi-day forecast does not run the single-forecast
  procedure. For ten check-ins with the moods 10, 1, 1, 1, 1, 1, 1, 1, 1, 1 (newest first)
  and no mined patterns, the single forecast for 08:00 is the exponentially smoothed
  value 3.7, and the 08:00 slot of the multi-day forecast is the plain mean 1.9.
\<close>

theorem multi_day_forecast_counterexample:
  "predict_next_mood spike_history no_patterns 8 ''Monday'' =
     Available
       \<lparr>predicted_mood = 37 / 10, predicted_energy = 5, confidence = 1 / 2,
        trend_direction = ''improving'',
        insights = [''Your mood has been trending upward recently''],
        based_on_checkins = 10\<rparr>
   \<and> get_mood_forecast spike_history no_patterns [''Monday''] =
       [(''Monday'', [(''morning'', 8, 19 / 10), (''afternoon'', 14, 19 / 10),
                     (''evening'', 20, 19 / 10)])]"
  by (simp add: predict_next_mood_def get_mood_forecast_def spike_history_def plain_checkin_def
        no_patterns_def smooth_def trend_of_def recent_avg_def older_avg_def blend_hourly_def
        blend_daily_def lookup_bucket_def forecast_insights_def in_hours_def times_def
        period_mood_def py_round_def round_half_even_def Let_def)

text \<open>Rounding to one decimal moves a value by at most 0.05 and keeps it within 1..10; the
  mean of scores on the scale 1..10 is on that scale.\<close>

lemma round_half_even_cases:
  "round_half_even y = \<lfloor>y\<rfloor> \<and> y - of_int \<lfloor>y\<rfloor> \<le> 1 / 2
   \<or> round_half_even y = \<lfloor>y\<rfloor> + 1 \<and> 1 / 2 \<le> y - of_int \<lfloor>y\<rfloor>"
  by (simp add: round_half_even_def Let_def)

lemma round_half_even_close: "\<bar>of_int (round_half_even y) - y\<bar> \<le> 1 / 2"
  using round_half_even_cases[of y] by (auto simp: abs_le_iff)

lemma round_half_even_range:
  assumes "of_int a \<le> y" and "y \<le> of_int b"
  shows "a \<le> round_half_even y \<and> round_half_even y \<le> b"
proof -
  have lo: "a \<le> \<lfloor>y\<rfloor>" using assms(1) by (simp add: le_floor_iff)
  have hi: "\<lfloor>y\<rfloor> \<le> b" using assms(2) by (simp add: floor_le_iff)
  show ?thesis
  proof (cases "round_half_even y = \<lfloor>y\<rfloor>")
    case True
    then show ?thesis using lo hi by simp
  next
    case False
    then have r: "round_half_even y = \<lfloor>y\<rfloor> + 1" and d: "1 / 2 \<le> y - of_int \<lfloor>y\<rfloor>"
      using round_half_even_cases[of y] by auto
    have "(of_int \<lfloor>y\<rfloor> :: real) < of_int b" using d assms(2) by linarith
    then have "\<lfloor>y\<rfloor> < b" by simp
    then show ?thesis using r lo by simp
  qed
qed

lemma py_round_close: "\<bar>py_round x 1 - x\<bar> \<le> 1 / 20"
proof -
  have "\<bar>of_int (round_half_even (x * 10)) - x * 10\<bar> \<le> 1 / 2"
    by (rule round_half_even_close)
  then show ?thesis by (simp add: py_round_def abs_le_iff field_simps)
qed

lemma py_round_range:
  assumes "1 \<le> x" and "x \<le> 10"
  shows "1 \<le> py_round x 1 \<and> py_round x 1 \<le> 10"
proof -
  have "10 \<le> round_half_even (x * 10) \<and> round_half_even (x * 10) \<le> 100"
    using assms by (intro round_half_even_range) simp_all
  then have "(10::real) \<le> of_int (round_half_even (x * 10))"
    and "of_int (round_half_even (x * 10)) \<le> (100::real)"
    by simp_all
  then show ?thesis by (simp add: py_round_def field_simps)
qed

lemma sum_list_bounds:
  assumes "\<forall>x \<in> set xs. (1::int) \<le> x \<and> x \<le> 10"
  shows "int (length xs) \<le> sum_list xs \<and> sum_list xs \<le> 10 * int (length xs)"
  using assms by (induction xs) auto

lemma mean_bounds:
  assumes "xs \<noteq> []" and "\<forall>x \<in> set xs. (1::int) \<le> x \<and> x \<le> 10"
  shows "1 \<le> mean xs \<and> mean xs \<le> 10"
proof -
  have n: "0 < real (length xs)" using assms(1) by simp
  have "of_int (int (length xs)) \<le> (of_int (sum_list xs) :: real)"
    and "of_int (sum_list xs) \<le> (of_int (10 * int (length xs)) :: real)"
    using sum_list_bounds[OF assms(2)] by (simp_all only: of_int_le_iff)
  then have "real (length xs) \<le> of_int (sum_list xs)"
    and "of_int (sum_list xs) \<le> 10 * real (length xs)"
    by simp_all
  then show ?thesis using n by (simp add: mean_def field_simps)
qed

lemma slot_target_bounds:
  assumes len: "10 \<le> length cs"
    and moods: "\<forall>c \<in> set cs. 1 \<le> mood_score c \<and> mood_score c \<le> 10"
    and hourly: "\<forall>h b. lookup_bucket (hourly circ) h = Some b \<longrightarrow> 1 \<le> avg_mood b \<and> avg_mood b \<le> 10"
    and daily: "\<forall>d b. lookup_bucket (daily circ) d = Some b \<longrightarrow> 1 \<le> avg_mood b \<and> avg_mood b \<le> 10"
  shows "1 \<le> slot_target cs circ day hour \<and> slot_target cs circ day hour \<le> 10"
proof -
  have ne: "map mood_score cs \<noteq> []" using len by auto
  have m: "1 \<le> mean (map mood_score cs) \<and> mean (map mood_score cs) \<le> 10"
    using mean_bounds[OF ne] moods by simp
  have hb: "1 \<le> avg_mood b \<and> avg_mood b \<le> 10"
    if "lookup_bucket (hourly circ) hour = Some b" for b
    using hourly that by blast
  have db: "1 \<le> avg_mood b \<and> avg_mood b \<le> 10"
    if "lookup_bucket (daily circ) day = Some b" for b
    using daily that by blast
  define base where "base = (case lookup_bucket (daily circ) day of
                    Some b \<Rightarrow> avg_mood b
                  | None \<Rightarrow> mean (map mood_score cs))"
  have b: "1 \<le> base \<and> base \<le> 10"
    using m db by (cases "lookup_bucket (daily circ) day") (simp_all add: base_def)
  show ?thesis
  proof (cases "lookup_bucket (hourly circ) hour")
    case None
    then show ?thesis using b by (simp add: slot_target_def base_def Let_def)
  next
    case (Some x)
    have "slot_target cs circ day hour = (base + avg_mood x) / 2"
      using Some by (simp add: slot_target_def base_def Let_def)
    then show ?thesis using b hb[OF Some] by simp
  qed
qed

lemma period_mood_slot:
  "period_mood circ (mean (map mood_score cs))
     (case lookup_bucket (daily circ) day of None \<Rightarrow> 0
      | Some b \<Rightarrow> avg_mood b - mean (map mood_score cs)) hour
   = py_round (max 1 (min 10 (slot_target cs circ day hour))) 1"
  by (simp add: period_mood_def slot_target_def Let_def split: option.splits)

text \<open>
  Claim C6, amended. Let the mood scores of the check-ins and the average moods of the
  mined buckets be on the mood scale 1..10. With fewer than 10 check-ins the multi-day
  forecast is empty. Otherwise it holds, for each day, the slots 08:00, 14:00 and 20:00,
  and each per-slot prediction lies between 1 and 10 and agrees, up to the rounding to one
  decimal (it differs by at most 0.06, which leaves room for the error of the float
  operations), with this value: the average mood of the weekday bucket when one exists
  for that day, otherwise the arithmetic mean of the mood scores of the check-ins;
  averaged with equal weights with the average mood of the hourly bucket when one exists
  for that hour. Neither exponential smoothing nor a trend enters.
\<close>

theorem multi_day_forecast_slots:
  assumes moods: "\<forall>c \<in> set cs. 1 \<le> mood_score c \<and> mood_score c \<le> 10"
    and hourly: "\<forall>h b. lookup_bucket (hourly circ) h = Some b \<longrightarrow> 1 \<le> avg_mood b \<and> avg_mood b \<le> 10"
    and daily: "\<forall>d b. lookup_bucket (daily circ) d = Some b \<longrightarrow> 1 \<le> avg_mood b \<and> avg_mood b \<le> 10"
  shows "(length cs < 10 \<longrightarrow> get_mood_forecast cs circ days = [])
   \<and> (10 \<le> length cs \<longrightarrow>
        (\<exists>f. get_mood_forecast cs circ days =
               map (\<lambda>day. (day, [(''morning'', 8, f day 8), (''afternoon'', 14, f day 14),
                                  (''evening'', 20, f day 20)])) days
           \<and> (\<forall>day h. 1 \<le> f day h \<and> f day h \<le> 10
                       \<and> \<bar>f day h - slot_target cs circ day h\<bar> \<le> 6 / 100)))"
proof (intro conjI impI)
  assume "length cs < 10"
  then show "get_mood_forecast cs circ days = []"
    by (simp add: get_mood_forecast_def)
next
  assume len: "10 \<le> length cs"
  let ?f = "\<lambda>day h. py_round (max 1 (min 10 (slot_target cs circ day h))) 1"
  have eq: "get_mood_forecast cs circ days =
               map (\<lambda>day. (day, [(''morning'', 8, ?f day 8), (''afternoon'', 14, ?f day 14),
                                  (''evening'', 20, ?f day 20)])) days"
    using len
    by (simp add: get_mood_forecast_def times_def Let_def
          period_mood_slot[unfolded mean_def length_map])
  have p: "1 \<le> ?f day h \<and> ?f day h \<le> 10 \<and> \<bar>?f day h - slot_target cs circ day h\<bar> \<le> 6 / 100"
    for day h
  proof -
    have t: "1 \<le> slot_target cs circ day h \<and> slot_target cs circ day h \<le> 10"
      by (rule slot_target_bounds[OF len moods hourly daily])
    then have c: "max 1 (min 10 (slot_target cs circ day h)) = slot_target cs circ day h"
      by simp
    have "\<bar>py_round (slot_target cs circ day h) 1 - slot_target cs circ day h\<bar> \<le> 1 / 20"
      by (rule py_round_close)
    then have "\<bar>py_round (slot_target cs circ day h) 1 - slot_target cs circ day h\<bar> \<le> 6 / 100"
      by linarith
    then show ?thesis using py_round_range[of "slot_target cs circ day h"] t
      by (simp only: c)
  qed
  show "\<exists>f. get_mood_forecast cs circ days =
               map (\<lambda>day. (day, [(''morning'', 8, f day 8), (''afternoon'', 14, f day 14),
                                  (''evening'', 20, f day 20)])) days
           \<and> (\<forall>day h. 1 \<le> f day h \<and> f day h \<le> 10
                       \<and> \<bar>f day h - slot_target cs circ day h\<bar> \<le> 6 / 100)"
    by (rule exI[of _ ?f]) (use eq p in blast)
qed

theorem multi_day_forecast_slots_witness:
  "10 \<le> length spike_history
   \<and> list_all (\<lambda>c. 1 \<le> mood_score c \<and> mood_score c \<le> 10) spike_history
   \<and> get_mood_forecast spike_history mild_patterns [''Monday'', ''Tuesday''] =
       [(''Monday'', [(''morning'', 8, 61 / 10), (''afternoon'', 14, 61 / 10),
                     (''evening'', 20, 66 / 10)]),
        (''Tuesday'', [(''morning'', 8, 19 / 10), (''afternoon'', 14, 19 / 10),
                      (''evening'', 20, 45 / 10)])]
   \<and> slot_target spike_history mild_patterns ''Tuesday'' 20 = 45 / 10
   \<and> (\<exists>f. get_mood_forecast spike_history mild_patterns [''Monday'', ''Tuesday''] =
               map (\<lambda>day. (day, [(''morning'', 8, f day 8), (''afternoon'', 14, f day 14),
                                  (''evening'', 20, f day 20)])) [''Monday'', ''Tuesday'']
           \<and> (\<forall>day h. 1 \<le> f day h \<and> f day h \<le> 10
                       \<and> \<bar>f day h - slot_target spike_history mild_patterns day h\<bar> \<le> 6 / 100))"
proof -
  have moods: "\<forall>c \<in> set spike_history. 1 \<le> mood_score c \<and> mood_score c \<le> 10"
    by (simp add: spike_history_def plain_checkin_def)
  have hourly: "\<forall>h b. lookup_bucket (hourly mild_patterns) h = Some b
                   \<longrightarrow> 1 \<le> avg_mood b \<and> avg_mood b \<le> 10"
    by (auto simp: lookup_bucket_def mild_patterns_def split: if_splits)
  have daily: "\<forall>d b. lookup_bucket (daily mild_patterns) d = Some b
                   \<longrightarrow> 1 \<le> avg_mood b \<and> avg_mood b \<le> 10"
    by (auto simp: lookup_bucket_def mild_patterns_def split: if_splits)
  have len: "10 \<le> length spike_history"
    by (simp add: spike_history_def)
  have ev: "get_mood_forecast spike_history mild_patterns [''Monday'', ''Tuesday''] =
       [(''Monday'', [(''morning'', 8, 61 / 10), (''afternoon'', 14, 61 / 10),
                     (''evening'', 20, 66 / 10)]),
        (''Tuesday'', [(''morning'', 8, 19 / 10), (''afternoon'', 14, 19 / 10),
                      (''evening'', 20, 45 / 10)])]"
    by (simp add: get_mood_forecast_def times_def period_mood_def spike_history_def
          plain_checkin_def mild_patterns_def lookup_bucket_def py_round_def
          round_half_even_def Let_def)
  have st: "slot_target spike_history mild_patterns ''Tuesday'' 20 = 45 / 10"
    by (simp add: slot_target_def spike_history_def plain_checkin_def mild_patterns_def
          lookup_bucket_def mean_def)
  have all: "list_all (\<lambda>c. 1 \<le> mood_score c \<and> mood_score c \<le> 10) spike_history"
    using moods by (simp add: list_all_iff)
  show ?thesis
    using multi_day_forecast_slots[OF moods hourly daily, of "[''Monday'', ''Tuesday'']"]
      len all ev st
    by (simp only: simp_thms) 
qed

section \<open>Property of the recommendation ranker\<close>

text \<open>
  Claim C1 at a concrete pool. The four scored candidates have three distinct
  approaches (CBT, CBT, DBT, ACT, by descending score), and no interaction has been
  recorded. The loop of \<^verbatim>\<open>_ensure_diversity_with_exploration\<close> takes the first three
  candidates, because its test \<^verbatim>\<open>len(selected) < 3\<close> holds whenever the loop is still
  running, so the top-3 list holds two CBT candidates although a third approach was
  available.
\<close>

theorem top_three_repeats_an_approach:
  "length (remdups (map (\<lambda>x. therapeutic_approach (intervention x)) diverse_pool)) = 3
   \<and> map (\<lambda>x. (name (intervention x), therapeutic_approach (intervention x), score x))
        (top_recommendations diverse_pool 0)
      = [(''Thought record'', ''CBT'', 117 / 100), (''Paced breathing'', ''DBT'', 91 / 100),
         (''Reframing'', ''CBT'', 8 / 10)]"
  by (simp add: top_recommendations_def ensure_diversity_with_exploration_def sort_by_score_def
        diverse_pool_def candidate_def exploration_rate_def Let_def)


section \<open>Properties of the pattern miner\<close>


lemma keys_dict_update:
  "map fst (dict_update k d f kvs) =
     (if k \<in> set (map fst kvs) then map fst kvs else map fst kvs @ [k])"
  by (induction kvs) (auto simp: rev_image_eqI)

lemma distinct_dict_update:
  "distinct (map fst kvs) \<Longrightarrow> distinct (map fst (dict_update k d f kvs))"
  by (simp add: keys_dict_update)

lemma map_of_dict_update:
  "map_of (dict_update k d f kvs) k' =
     (if k' = k then Some (f (case map_of kvs k of None \<Rightarrow> d | Some v \<Rightarrow> v))
      else map_of kvs k')"
  by (induction kvs) auto

lemma distinct_hourly_fold:
  "distinct (map fst acc) \<Longrightarrow>
     distinct (map fst (foldl (\<lambda>acc c. dict_update (key c) d (f c) acc) acc cs))"
  by (induction cs arbitrary: acc) (simp_all add: distinct_dict_update)

lemma count_in_step:
  "count_in (dict_update (created_hour c) zero_sums (add_checkin c) acc) h =
     count_in acc h + (if created_hour c = h then 1 else 0)"
  by (simp add: count_in_def map_of_dict_update add_checkin_def zero_sums_def split: option.splits)

lemma count_in_fold:
  "count_in (foldl (\<lambda>acc c. dict_update (created_hour c) zero_sums (add_checkin c) acc) acc cs) h
     = count_in acc h + int (samples_at cs h)"
  by (induction cs arbitrary: acc) (simp_all add: count_in_step samples_at_def)

lemma count_in_hourly: "count_in (hourly_patterns cs) h = int (samples_at cs h)"
  by (simp add: hourly_patterns_def count_in_fold) (simp add: count_in_def)

lemma distinct_hourly: "distinct (map fst (hourly_patterns cs))"
  by (simp add: hourly_patterns_def distinct_hourly_fold)

lemma keys_averages: "map fst (averages kvs) = map fst (filter (\<lambda>(k, s). sum_count s \<ge> 3) kvs)"
  by (simp add: averages_def case_prod_beta comp_def)

lemma distinct_averages: "distinct (map fst kvs) \<Longrightarrow> distinct (map fst (averages kvs))"
  by (simp add: keys_averages distinct_map_filter)

lemma set_keys_averages:
  assumes "distinct (map fst kvs)"
  shows "set (map fst (averages kvs)) = {h. 3 \<le> count_in kvs h}"
proof -
  have "h \<in> set (map fst (averages kvs)) \<longleftrightarrow> 3 \<le> count_in kvs h" for h
  proof
    assume "h \<in> set (map fst (averages kvs))"
    then obtain s where "(h, s) \<in> set kvs" "3 \<le> sum_count s"
      by (auto simp: keys_averages)
    then show "3 \<le> count_in kvs h" using assms by (simp add: count_in_def)
  next
    assume "3 \<le> count_in kvs h"
    then obtain s where "map_of kvs h = Some s" "3 \<le> sum_count s"
      by (auto simp: count_in_def split: option.splits)
    then have "(h, s) \<in> set kvs" "3 \<le> sum_count s" by (auto dest: map_of_SomeD)
    then show "h \<in> set (map fst (averages kvs))"
      by (force simp: keys_averages)
  qed
  then show ?thesis by blast
qed

lemma keys_sorted_by_mood:
  "set (map fst (sorted_by_mood xs)) = set (map fst xs)"
  "distinct (map fst (sorted_by_mood xs)) = distinct (map fst xs)"
  "length (sorted_by_mood xs) = length xs"
  by (simp_all add: sorted_by_mood_def distinct_map)

text \<open>
  Claim C10. When \<^verbatim>\<open>learn_circadian_patterns\<close> runs on at least 10 check-ins and the number
  \<open>k\<close> of hourly buckets with at least 3 samples satisfies \<open>1 \<le> k \<le> 3\<close>, the mined
  \<^verbatim>\<open>best_hours\<close> and \<^verbatim>\<open>worst_hours\<close> are the same list: it holds exactly the \<open>k\<close> hours with
  at least 3 samples, each once.
\<close>

theorem best_and_worst_hours_coincide:
  assumes len: "10 \<le> length cs"
    and k: "k = card {h. 3 \<le> samples_at cs h}"
    and k1: "1 \<le> k" and k3: "k \<le> 3"
  shows "\<exists>hs. best_hours (learn_circadian_patterns cs) = Some hs
            \<and> worst_hours (learn_circadian_patterns cs) = Some hs
            \<and> distinct hs \<and> length hs = k
            \<and> set hs = {h. 3 \<le> samples_at cs h}"
proof -
  let ?hourly = "averages (hourly_patterns cs)"
  let ?sorted = "sorted_by_mood ?hourly"
  have d: "distinct (map fst ?hourly)"
    by (simp add: distinct_averages distinct_hourly)
  have s: "set (map fst ?hourly) = {h. 3 \<le> samples_at cs h}"
    using set_keys_averages[OF distinct_hourly, of cs] by (simp add: count_in_hourly)
  have "length (map fst ?hourly) = card (set (map fst ?hourly))"
    using d by (simp only: distinct_card)
  then have l: "length ?hourly = k" using s k by simp
  then have ne: "?hourly \<noteq> []" using k1 by auto
  have ls: "length ?sorted = k" using l by (simp add: keys_sorted_by_mood(3))
  have t: "take 3 ?sorted = ?sorted" using ls k3 by simp
  have w: "last_n 3 ?sorted = ?sorted" using ls k3 by (simp add: last_n_def)
  have b: "best_hours (learn_circadian_patterns cs) = Some (map fst ?sorted)"
    using len ne t by (simp add: learn_circadian_patterns_def Let_def)
  have wo: "worst_hours (learn_circadian_patterns cs) = Some (map fst ?sorted)"
    using len ne w by (simp add: learn_circadian_patterns_def Let_def)
  have "distinct (map fst ?sorted)" using d by (simp only: keys_sorted_by_mood(2))
  moreover have "length (map fst ?sorted) = k" using ls by simp
  moreover have "set (map fst ?sorted) = {h. 3 \<le> samples_at cs h}"
    using s by (simp only: keys_sorted_by_mood(1))
  ultimately show ?thesis using b wo by blast
qed

theorem best_and_worst_hours_coincide_witness:
  "10 \<le> length hour_history
   \<and> 2 = card {h. 3 \<le> samples_at hour_history h}
   \<and> (\<exists>hs. best_hours (learn_circadian_patterns hour_history) = Some hs
          \<and> worst_hours (learn_circadian_patterns hour_history) = Some hs
          \<and> distinct hs \<and> length hs = 2 \<and> set hs = {9, 20})"
proof -
  have s: "{h. 3 \<le> samples_at hour_history h} = {9, 20}"
    by (auto simp: samples_at_def hour_history_def checkin_at_def plain_checkin_def
          split: if_splits)
  have k: "2 = card {h. 3 \<le> samples_at hour_history h}"
    by (simp add: s)
  have len: "10 \<le> length hour_history"
    by (simp add: hour_history_def)
  show ?thesis
    using best_and_worst_hours_coincide[OF len k] len by (simp add: s)
qed

lemma classify_step_cases:
  "classify_step kind (r, p) (v, d) =
     (if is_risk d
      then (r @ [(v, py_round (of_int (negative d) / of_int (impact_count d)) 2)], p)
      else if is_protective d then (r, p @ [(kind, v)]) else (r, p))"
  by (simp add: classify_step_def Let_def is_risk_def is_protective_def)

lemma classify_fold:
  "foldl (classify_step kind) (r0, p0) items =
     (r0 @ map (\<lambda>(v, d). (v, py_round (of_int (negative d) / of_int (impact_count d)) 2))
             (filter (\<lambda>(v, d). is_risk d) items),
      p0 @ map (\<lambda>(v, d). (kind, v)) (filter (\<lambda>(v, d). is_protective d) items))"
proof (induction items arbitrary: r0 p0)
  case Nil
  then show ?case by simp
next
  case (Cons item items)
  obtain v d where item: "item = (v, d)" by (cases item)
  have np: "is_risk d \<Longrightarrow> \<not> is_protective d"
    by (simp add: is_risk_def is_protective_def)
  show ?case
    using np by (simp add: item classify_step_cases Cons.IH)
qed

lemma distinct_impact_of: "distinct (map fst (impact_of field cs))"
proof -
  have "distinct (map fst acc) \<Longrightarrow> distinct (map fst (foldl (impact_step field) acc cs))" for acc
    by (induction cs arbitrary: acc)
       (simp_all add: impact_step_def distinct_dict_update split: option.splits)
  then show ?thesis by (simp add: impact_of_def)
qed

lemma risk_excludes_protective:
  assumes "distinct (map fst items)"
  shows "\<not> (v \<in> fst ` set (filter (\<lambda>(v, d). is_risk d) items)
            \<and> v \<in> fst ` set (filter (\<lambda>(v, d). is_protective d) items))"
proof
  assume "v \<in> fst ` set (filter (\<lambda>(v, d). is_risk d) items)
            \<and> v \<in> fst ` set (filter (\<lambda>(v, d). is_protective d) items)"
  then obtain d d' where a: "(v, d) \<in> set items" "is_risk d"
    and b: "(v, d') \<in> set items" "is_protective d'"
    by auto
  from assms a(1) b(1) have "d = d'" by (rule eq_key_imp_eq_value)
  with a(2) b(2) show False by (simp add: is_risk_def is_protective_def)
qed

lemma protective_member:
  "(kind, v) \<in> set (map (\<lambda>(v, d). (kind', v)) xs) \<longleftrightarrow> kind = kind' \<and> v \<in> fst ` set xs"
  by force

lemma risk_member:
  "v \<in> fst ` set (map (\<lambda>(v, d). (v, g d)) xs) \<longleftrightarrow> v \<in> fst ` set xs"
  by force

text \<open>
  Claim C7. For every history that \<^verbatim>\<open>learn_trigger_patterns\<close> processes (at least 15
  check-ins), the mined pattern set never lists a context value of a dimension both as a
  risk trigger of that dimension and as a protective factor of that dimension: no
  location is in \<^verbatim>\<open>"locations"\<close> and also a protective factor of type location, and
  likewise for activities and for the social context.
\<close>

theorem no_value_both_risk_and_protective:
  assumes "15 \<le> length cs"
  shows "\<exists>t. learn_trigger_patterns cs = Some t
           \<and> (\<forall>v. \<not> (v \<in> fst ` set (locations t)
                        \<and> (''location'', v) \<in> set (protective_factors t))
                  \<and> \<not> (v \<in> fst ` set (activities t)
                        \<and> (''activity'', v) \<in> set (protective_factors t))
                  \<and> \<not> (v \<in> fst ` set (social t)
                        \<and> (''social'', v) \<in> set (protective_factors t)))"
proof -
  let ?risk = "\<lambda>items. map (\<lambda>(v, d). (v, py_round (of_int (negative d) / of_int (impact_count d)) 2))
                          (filter (\<lambda>(v, d). is_risk d) items)"
  let ?prot = "\<lambda>kind items. map (\<lambda>(v, d). (kind, v)) (filter (\<lambda>(v, d). is_protective d) items)"
  let ?L = "impact_of context_location cs"
  let ?A = "impact_of context_activity cs"
  let ?S = "impact_of context_social cs"
  let ?t = "\<lparr>locations = ?risk ?L, activities = ?risk ?A, social = ?risk ?S,
             protective_factors = ?prot ''location'' ?L @ ?prot ''activity'' ?A
                                    @ ?prot ''social'' ?S\<rparr>"
  have t: "learn_trigger_patterns cs = Some ?t"
    using assms by (simp add: learn_trigger_patterns_def Let_def classify_fold)
  have "\<not> (v \<in> fst ` set (locations ?t) \<and> (''location'', v) \<in> set (protective_factors ?t))" for v
    using risk_excludes_protective[OF distinct_impact_of, of v context_location cs]
    unfolding trigger_patterns.simps set_append Un_iff protective_member risk_member
    by simp
  moreover
  have "\<not> (v \<in> fst ` set (activities ?t) \<and> (''activity'', v) \<in> set (protective_factors ?t))" for v
    using risk_excludes_protective[OF distinct_impact_of, of v context_activity cs]
    unfolding trigger_patterns.simps set_append Un_iff protective_member risk_member
    by simp
  moreover
  have "\<not> (v \<in> fst ` set (social ?t) \<and> (''social'', v) \<in> set (protective_factors ?t))" for v
    using risk_excludes_protective[OF distinct_impact_of, of v context_social cs]
    unfolding trigger_patterns.simps set_append Un_iff protective_member risk_member
    by simp
  ultimately show ?thesis using t by blast
qed

theorem no_value_both_risk_and_protective_witness:
  "15 \<le> length location_history
   \<and> (\<exists>t. learn_trigger_patterns location_history = Some t
          \<and> map fst (locations t) = [''work'', ''gym'']
          \<and> protective_factors t = [(''location'', ''park'')]
          \<and> \<not> (''gym'' \<in> fst ` set (locations t)
                 \<and> (''location'', ''gym'') \<in> set (protective_factors t)))"
proof -
  have len: "15 \<le> length location_history"
    by (simp add: location_history_def)
  have L: "impact_of context_location location_history =
             [(''work'', \<lparr>positive = 0, negative = 3, impact_count = 3\<rparr>),
              (''park'', \<lparr>positive = 3, negative = 0, impact_count = 3\<rparr>),
              (''gym'', \<lparr>positive = 3, negative = 3, impact_count = 3\<rparr>)]"
    by (simp add: impact_of_def impact_step_def location_history_def located_def
          plain_checkin_def add_impact_def zero_impact_def is_negative_def is_positive_def)
  have A: "impact_of context_activity location_history = []"
    by (simp add: impact_of_def impact_step_def location_history_def located_def
          plain_checkin_def)
  have S: "impact_of context_social location_history = []"
    by (simp add: impact_of_def impact_step_def location_history_def located_def
          plain_checkin_def)
  have t: "learn_trigger_patterns location_history =
             Some \<lparr>locations = [(''work'', 1), (''gym'', 1)], activities = [], social = [],
                   protective_factors = [(''location'', ''park'')]\<rparr>"
    using len
    by (simp add: learn_trigger_patterns_def L A S Let_def classify_step_def py_round_def
          round_half_even_def)
  show ?thesis
    using no_value_both_risk_and_protective[OF len] len by (simp add: t)
qed

end
